theory Spec2Isabelle
  imports Main "HOL-Library.Sublist"
begin

section \<open>Python values used by \<^verbatim>\<open>app.py\<close>\<close>

text \<open>
  A Python \<^verbatim>\<open>str\<close> is a sequence of Unicode code points, and \<^verbatim>\<open>s[0]\<close> is its
  first code point, so a string is a list of code points here. The literals of the
  source are written with \<open>lit\<close>, which maps each ASCII character to its code point.
\<close>

type_synonym py_str = "nat list"

definition lit :: "string \<Rightarrow> py_str" where
  "lit s = map of_char s"

text \<open>
  The value \<^verbatim>\<open>response.json()\<close> returns: \<^verbatim>\<open>None\<close>, \<^verbatim>\<open>bool\<close>, \<^verbatim>\<open>int\<close>,
  \<^verbatim>\<open>float\<close>, \<^verbatim>\<open>str\<close>, \<^verbatim>\<open>list\<close> or \<^verbatim>\<open>dict\<close> with \<^verbatim>\<open>str\<close> keys. The same
  type holds the dictionaries the handler builds. Python's floats are the parameter
  \<open>'f\<close>: the program never computes with one. A dictionary is an association list in
  insertion order, read with \<open>map_of\<close>.
\<close>

datatype 'f json =
    JNull
  | JBool bool
  | JInt int
  | JFloat 'f
  | JStr py_str
  | JArr "'f json list"
  | JObj "(py_str \<times> 'f json) list"

text \<open>
  The exceptions that can leave the module, by class: the one the module body raises,
  the ones subscription raises, and whatever a library call raises, which the module
  never catches. \<open>OtherError\<close> holds the name of a class not listed.
\<close>

datatype py_error =
    RuntimeError py_str
  | RequestException
  | JSONDecodeError
  | ValueError
  | KeyError
  | IndexError
  | TypeError
  | OtherError py_str

text \<open>
  \<^verbatim>\<open>a or b\<close>: \<^verbatim>\<open>a\<close> when it is truthy, else \<^verbatim>\<open>b\<close>. The empty string is falsy, and so
  is \<^verbatim>\<open>None\<close>.
\<close>

definition str_or :: "py_str \<Rightarrow> py_str \<Rightarrow> py_str" where
  "str_or a b = (if a = [] then b else a)"

definition opt_str_or :: "py_str option \<Rightarrow> py_str \<Rightarrow> py_str" where
  "opt_str_or a b = (case a of None \<Rightarrow> b | Some s \<Rightarrow> if s = [] then b else s)"

text \<open>
  Subscription \<^verbatim>\<open>v[k]\<close> with a string or an integer subscript. A sequence index
  below zero counts from the end, and one out of range raises \<^verbatim>\<open>IndexError\<close>. A
  dictionary decoded from JSON has string keys only, so an integer key is never found.
  Indexing a string gives the one-character string. A list or a string subscripted by a
  string, and any other value subscripted at all, raise \<^verbatim>\<open>TypeError\<close>.
\<close>

datatype subscript = Key py_str | Idx int

definition seq_index :: "'a list \<Rightarrow> int \<Rightarrow> py_error + 'a" where
  "seq_index xs i =
     (let n = int (length xs); j = (if i < 0 then i + n else i)
      in if j < 0 \<or> n \<le> j then Inl IndexError else Inr (xs ! nat j))"

fun getitem :: "'f json \<Rightarrow> subscript \<Rightarrow> py_error + 'f json" where
  "getitem (JObj kvs) (Key k) = (case map_of kvs k of None \<Rightarrow> Inl KeyError | Some v \<Rightarrow> Inr v)"
| "getitem (JObj kvs) (Idx i) = Inl KeyError"
| "getitem (JArr xs) (Idx i) = seq_index xs i"
| "getitem (JArr xs) (Key k) = Inl TypeError"
| "getitem (JStr s) (Idx i) = (case seq_index s i of Inl e \<Rightarrow> Inl e | Inr c \<Rightarrow> Inr (JStr [c]))"
| "getitem (JStr s) (Key k) = Inl TypeError"
| "getitem JNull k = Inl TypeError"
| "getitem (JBool b) k = Inl TypeError"
| "getitem (JInt n) k = Inl TypeError"
| "getitem (JFloat x) k = Inl TypeError"

text \<open>A further subscription of a value whose computation may already have raised.\<close>

definition then_getitem :: "py_error + 'f json \<Rightarrow> subscript \<Rightarrow> py_error + 'f json" where
  "then_getitem r k = (case r of Inl e \<Rightarrow> Inl e | Inr v \<Rightarrow> getitem v k)"

section \<open>Module start\<close>

text \<open>
  \<^verbatim>\<open>
  load_dotenv()
  GROQ_API_KEY = os.getenv("GROQ_API_KEY")
  if GROQ_API_KEY is None:
      raise RuntimeError("GROQ_API_KEY is not set")
  app = FastAPI()
  \<close>
  The process environment is a map from names to values. \<^verbatim>\<open>load_dotenv\<close> belongs to
  a library and may add to the environment before it is read, so it is a parameter. The
  only module-level variable a request reads is the credential.
\<close>

type_synonym environ = "py_str \<rightharpoonup> py_str"

record module_state =
  GROQ_API_KEY :: py_str

definition getenv :: "environ \<Rightarrow> py_str \<Rightarrow> py_str option" where
  "getenv env name = env name"

definition module_init :: "(environ \<Rightarrow> environ) \<Rightarrow> environ \<Rightarrow> py_error + module_state" where
  "module_init load_dotenv env =
     (case getenv (load_dotenv env) (lit ''GROQ_API_KEY'') of
        None \<Rightarrow> Inl (RuntimeError (lit ''GROQ_API_KEY is not set''))
      | Some k \<Rightarrow> Inr \<lparr>GROQ_API_KEY = k\<rparr>)"

section \<open>The request and the prompt\<close>

text \<open>
  \<^verbatim>\<open>
  class AnalyzeRequest(BaseModel):
      code: str
      error: str | None
  \<close>
\<close>

record AnalyzeRequest =
  code :: py_str
  error :: "py_str option"

text \<open>
  The f-string of \<^verbatim>\<open>analyze\<close>. It opens with a line break, and the instruction line
  ends with a blank before its line break.
\<close>

definition prompt_head :: py_str where
  "prompt_head = lit ''\<newline>You are a coding tutor/assistant of AI and Data Science bootcamp students. Your role is to support the students in learning Python. For this reason your role is to explain the errors their codes get, why, and to guide them to fix the code and also learn. Importantly, you must not provide the solution code itself, and only guidance. \<newline>\<newline>Student code:\<newline>''"

definition prompt_mid :: py_str where
  "prompt_mid = lit ''\<newline>\<newline>Error message:\<newline>''"

definition prompt_tail :: py_str where
  "prompt_tail = lit ''\<newline>\<newline>Explain:\<newline>1. What is the issue?\<newline>2. Why did it happen?\<newline>3. How to fix it?\<newline>4. Give a minimal example or a hint.\<newline>''"

definition render_prompt :: "AnalyzeRequest \<Rightarrow> py_str" where
  "render_prompt req =
     prompt_head @ str_or (code req) (lit ''[EMPTY CODE]'') @
     prompt_mid @ opt_str_or (error req) (lit ''No error message'') @
     prompt_tail"

section \<open>The outbound call and the handler\<close>

text \<open>
  What \<^verbatim>\<open>requests.post\<close> is given: the address, the headers and the \<^verbatim>\<open>json=\<close>
  dictionary.
\<close>

record 'f http_request =
  url :: py_str
  headers :: "(py_str \<times> py_str) list"
  json_payload :: "'f json"

text \<open>
  What \<^verbatim>\<open>requests.post\<close> does: it raises some exception (no connection, a time-out),
  or it returns a response of any status. A response's \<^verbatim>\<open>.json()\<close> in turn returns
  the decoded body or raises some exception. Neither call stands in a \<^verbatim>\<open>try\<close>, so
  what either raises leaves \<^verbatim>\<open>analyze\<close> as it is.
\<close>

datatype 'f post_outcome =
    PostRaises py_error
  | PostReturns nat "py_error + 'f json"

definition outbound_request :: "module_state \<Rightarrow> AnalyzeRequest \<Rightarrow> 'f http_request" where
  "outbound_request g req =
     \<lparr>url = lit ''https://api.groq.com/openai/v1/chat/completions'',
      headers =
        [(lit ''Authorization'', lit ''Bearer '' @ GROQ_API_KEY g),
         (lit ''Content-Type'', lit ''application/json'')],
      json_payload =
        JObj [(lit ''model'', JStr (lit ''llama-3.1-8b-instant'')),
              (lit ''messages'',
               JArr [JObj [(lit ''role'', JStr (lit ''user'')),
                           (lit ''content'', JStr (render_prompt req))]])]\<rparr>"

text \<open>
  \<^verbatim>\<open>response.json()["choices"][0]["message"]["content"]\<close>, on the decoded body.
\<close>

definition extract_content :: "'f json \<Rightarrow> py_error + 'f json" where
  "extract_content body =
     then_getitem
       (then_getitem
          (then_getitem (getitem body (Key (lit ''choices''))) (Idx 0))
          (Key (lit ''message'')))
       (Key (lit ''content''))"

text \<open>
  One invocation of \<^verbatim>\<open>analyze\<close>: what it returns or raises, the module state it
  leaves, and the calls it made to \<^verbatim>\<open>requests.post\<close>, in order. The network is the
  function \<open>post\<close> from the request made to its outcome.
\<close>

record 'f invocation =
  returned :: "py_error + 'f json"
  globals_after :: module_state
  posts :: "'f http_request list"

definition analyze ::
  "module_state \<Rightarrow> ('f http_request \<Rightarrow> 'f post_outcome) \<Rightarrow> AnalyzeRequest \<Rightarrow> 'f invocation" where
  "analyze g post req =
     (let r = outbound_request g req in
      \<lparr>returned =
         (case post r of
            PostRaises e \<Rightarrow> Inl e
          | PostReturns status body \<Rightarrow>
              (case body of
                 Inl e \<Rightarrow> Inl e
               | Inr j \<Rightarrow>
                   (case extract_content j of
                      Inl e \<Rightarrow> Inl e
                    | Inr c \<Rightarrow> Inr (JObj [(lit ''analysis'', c)])))),
       globals_after = g,
       posts = [r]\<rparr>)"

text \<open>
  The life of the process: the module body runs first, and only when it has finished
  does the application exist and route requests to \<^verbatim>\<open>analyze\<close>, one invocation
  each. A request whose handler raises fails alone; the next one is still served.
\<close>

fun serve ::
  "module_state \<Rightarrow> ('f http_request \<Rightarrow> 'f post_outcome) \<Rightarrow> AnalyzeRequest list \<Rightarrow> 'f invocation list" where
  "serve g post [] = []"
| "serve g post (req # reqs) =
     (let i = analyze g post req in i # serve (globals_after i) post reqs)"

definition run_process ::
  "(environ \<Rightarrow> environ) \<Rightarrow> environ \<Rightarrow> ('f http_request \<Rightarrow> 'f post_outcome) \<Rightarrow>
   AnalyzeRequest list \<Rightarrow> py_error + 'f invocation list" where
  "run_process load_dotenv env post reqs =
     (case module_init load_dotenv env of
        Inl e \<Rightarrow> Inl e
      | Inr g \<Rightarrow> Inr (serve g post reqs))"

text \<open>A network that gives every request the same outcome.\<close>

definition always :: "'f post_outcome \<Rightarrow> 'f http_request \<Rightarrow> 'f post_outcome" where
  "always out r = out"

section \<open>The path \<^verbatim>\<open>choices[0].message.content\<close> of a JSON document\<close>

text \<open>
  Stated on the document, apart from the handler's subscriptions: an object has members,
  an array has elements, and no other value has either.
\<close>

fun member_of :: "'f json \<Rightarrow> py_str \<Rightarrow> 'f json option" where
  "member_of (JObj kvs) k = map_of kvs k"
| "member_of JNull k = None"
| "member_of (JBool b) k = None"
| "member_of (JInt n) k = None"
| "member_of (JFloat x) k = None"
| "member_of (JStr s) k = None"
| "member_of (JArr xs) k = None"

fun first_element :: "'f json \<Rightarrow> 'f json option" where
  "first_element (JArr xs) = (case xs of [] \<Rightarrow> None | x # rest \<Rightarrow> Some x)"
| "first_element JNull = None"
| "first_element (JBool b) = None"
| "first_element (JInt n) = None"
| "first_element (JFloat x) = None"
| "first_element (JStr s) = None"
| "first_element (JObj kvs) = None"

definition content_path :: "'f json \<Rightarrow> 'f json option" where
  "content_path body =
     (case member_of body (lit ''choices'') of
        None \<Rightarrow> None
      | Some choices \<Rightarrow>
          (case first_element choices of
             None \<Rightarrow> None
           | Some choice \<Rightarrow>
               (case member_of choice (lit ''message'') of
                  None \<Rightarrow> None
                | Some message \<Rightarrow> member_of message (lit ''content''))))"

section \<open>Subscriptions along the path\<close>

lemma seq_index_zero: "seq_index xs 0 = (case xs of [] \<Rightarrow> Inl IndexError | x # rest \<Rightarrow> Inr x)"
  by (cases xs) (simp_all add: seq_index_def)

lemma first_choice: "then_getitem (Inr v) (Idx 0) =
   (case v of JArr xs \<Rightarrow> (case xs of [] \<Rightarrow> Inl IndexError | x # rest \<Rightarrow> Inr x)
            | JStr s \<Rightarrow> (case s of [] \<Rightarrow> Inl IndexError | c # rest \<Rightarrow> Inr (JStr [c]))
            | JObj kvs \<Rightarrow> Inl KeyError
            | _ \<Rightarrow> Inl TypeError)"
  by (cases v) (simp_all add: then_getitem_def seq_index_zero split: list.splits)

lemma key_of: "then_getitem (Inr v) (Key k) =
   (case v of JObj kvs \<Rightarrow> (case map_of kvs k of None \<Rightarrow> Inl KeyError | Some w \<Rightarrow> Inr w)
            | _ \<Rightarrow> Inl TypeError)"
  by (cases v) (simp_all add: then_getitem_def)

lemma then_getitem_Inl: "then_getitem (Inl e) k = Inl e"
  by (simp add: then_getitem_def)

lemma extract_content_found:
  "content_path body = Some v \<Longrightarrow> extract_content body = Inr v"
  unfolding content_path_def extract_content_def
  by (cases body) (auto simp: first_choice key_of then_getitem_Inl split: option.splits json.splits list.splits)

lemma extract_content_shape_error:
  "content_path body = None \<Longrightarrow>
   extract_content body = Inl KeyError \<or> extract_content body = Inl IndexError \<or>
   extract_content body = Inl TypeError"
  unfolding content_path_def extract_content_def
  by (cases body) (auto simp: first_choice key_of then_getitem_Inl split: option.splits json.splits list.splits)

section \<open>What one invocation does\<close>

lemma analyze_posts: "posts (analyze g post req) = [outbound_request g req]"
  by (simp add: analyze_def Let_def)

lemma analyze_globals: "globals_after (analyze g post req) = g"
  by (simp add: analyze_def Let_def)

lemma serve_globals: "map globals_after (serve g post reqs) = replicate (length reqs) g"
  by (induction reqs) (simp_all add: Let_def analyze_globals)

lemma serve_post_counts:
  "map (\<lambda>i. length (posts i)) (serve g post reqs) = replicate (length reqs) 1"
  by (induction reqs) (simp_all add: Let_def analyze_globals analyze_posts)

section \<open>The prompt\<close>

text \<open>
  C1. For every request, the rendered prompt contains the student's code verbatim, or
  the placeholder \<^verbatim>\<open>[EMPTY CODE]\<close> when the code is the empty string, and contains the
  error text verbatim, or the placeholder \<^verbatim>\<open>No error message\<close> when the error is
  \<^verbatim>\<open>None\<close>.
\<close>

theorem render_prompt_contains_inputs:
  "sublist (if code req = [] then lit ''[EMPTY CODE]'' else code req) (render_prompt req) \<and>
   sublist (case error req of None \<Rightarrow> lit ''No error message'' | Some e \<Rightarrow> e) (render_prompt req)"
proof
  have "render_prompt req = prompt_head @ str_or (code req) (lit ''[EMPTY CODE]'') @
      (prompt_mid @ opt_str_or (error req) (lit ''No error message'') @ prompt_tail)"
    by (simp add: render_prompt_def)
  then have "sublist (str_or (code req) (lit ''[EMPTY CODE]'')) (render_prompt req)"
    by (simp only: sublist_appendI)
  then show "sublist (if code req = [] then lit ''[EMPTY CODE]'' else code req) (render_prompt req)"
    by (simp add: str_or_def)
next
  have "render_prompt req = (prompt_head @ str_or (code req) (lit ''[EMPTY CODE]'') @ prompt_mid) @
      opt_str_or (error req) (lit ''No error message'') @ prompt_tail"
    by (simp add: render_prompt_def)
  then have slot: "sublist (opt_str_or (error req) (lit ''No error message'')) (render_prompt req)"
    by (simp only: sublist_appendI)
  show "sublist (case error req of None \<Rightarrow> lit ''No error message'' | Some e \<Rightarrow> e) (render_prompt req)"
  proof (cases "error req")
    case None
    with slot show ?thesis by (simp add: opt_str_or_def)
  next
    case (Some e)
    with slot show ?thesis by (cases "e = []") (simp_all add: opt_str_or_def)
  qed
qed

theorem render_prompt_contains_inputs_witness:
  "sublist (lit ''print(x)'')
     (render_prompt \<lparr>code = lit ''print(x)'', error = Some (lit ''NameError: name x is not defined'')\<rparr>) \<and>
   sublist (lit ''NameError: name x is not defined'')
     (render_prompt \<lparr>code = lit ''print(x)'', error = Some (lit ''NameError: name x is not defined'')\<rparr>) \<and>
   sublist (lit ''[EMPTY CODE]'') (render_prompt \<lparr>code = [], error = None\<rparr>) \<and>
   sublist (lit ''No error message'') (render_prompt \<lparr>code = [], error = None\<rparr>)"
  using render_prompt_contains_inputs
          [of "\<lparr>code = lit ''print(x)'', error = Some (lit ''NameError: name x is not defined'')\<rparr>"]
        render_prompt_contains_inputs [of "\<lparr>code = [], error = None\<rparr>"]
  by (simp add: lit_def)

text \<open>
  C9. Prompt construction is deterministic: two invocations with equal \<^verbatim>\<open>code\<close> and
  equal \<^verbatim>\<open>error\<close> render the same prompt and send the same request body, whatever
  the credential and whatever the network does.
\<close>

theorem render_prompt_deterministic:
  "code r1 = code r2 \<Longrightarrow> error r1 = error r2 \<Longrightarrow>
   render_prompt r1 = render_prompt r2 \<and>
   map json_payload (posts (analyze g1 post1 r1)) = map json_payload (posts (analyze g2 post2 r2))"
  by (simp add: render_prompt_def analyze_posts outbound_request_def)

theorem render_prompt_deterministic_witness:
  "render_prompt \<lparr>code = lit ''print(x)'', error = Some (lit ''NameError'')\<rparr> =
     render_prompt \<lparr>code = lit ''print('' @ lit ''x)'', error = Some (lit ''Name'' @ lit ''Error'')\<rparr> \<and>
   map json_payload
     (posts (analyze \<lparr>GROQ_API_KEY = lit ''gsk_one''\<rparr> (always (PostRaises RequestException :: unit post_outcome))
        \<lparr>code = lit ''print(x)'', error = Some (lit ''NameError'')\<rparr>)) =
   map json_payload
     (posts (analyze \<lparr>GROQ_API_KEY = lit ''gsk_two''\<rparr> (always (PostReturns 200 (Inl JSONDecodeError)))
        \<lparr>code = lit ''print('' @ lit ''x)'', error = Some (lit ''Name'' @ lit ''Error'')\<rparr>))"
  using render_prompt_deterministic
    [of "\<lparr>code = lit ''print(x)'', error = Some (lit ''NameError'')\<rparr>"
        "\<lparr>code = lit ''print('' @ lit ''x)'', error = Some (lit ''Name'' @ lit ''Error'')\<rparr>"
        "\<lparr>GROQ_API_KEY = lit ''gsk_one''\<rparr>" "always (PostRaises RequestException :: unit post_outcome)"
        "\<lparr>GROQ_API_KEY = lit ''gsk_two''\<rparr>" "always (PostReturns 200 (Inl JSONDecodeError))"]
  by (simp add: lit_def)

text \<open>
  C10. When \<^verbatim>\<open>error\<close> is the empty string, not \<^verbatim>\<open>None\<close>, the prompt is the one
  rendered for \<^verbatim>\<open>None\<close>: the error slot holds \<^verbatim>\<open>No error message\<close> and is not
  left empty.
\<close>

theorem empty_error_gets_placeholder:
  "error req = Some [] \<Longrightarrow>
   render_prompt req = render_prompt (req\<lparr>error := None\<rparr>) \<and>
   render_prompt req =
     prompt_head @ str_or (code req) (lit ''[EMPTY CODE]'') @
     prompt_mid @ lit ''No error message'' @ prompt_tail \<and>
   render_prompt req \<noteq>
     prompt_head @ str_or (code req) (lit ''[EMPTY CODE]'') @ prompt_mid @ [] @ prompt_tail \<and>
   sublist (lit ''No error message'') (render_prompt req)"
proof -
  assume empty: "error req = Some []"
  have slot: "render_prompt req =
     (prompt_head @ str_or (code req) (lit ''[EMPTY CODE]'') @ prompt_mid) @
     lit ''No error message'' @ prompt_tail"
    using empty by (simp add: render_prompt_def opt_str_or_def)
  have "sublist (lit ''No error message'') (render_prompt req)"
    by (simp only: slot sublist_appendI)
  moreover have "lit ''No error message'' \<noteq> []"
    by (simp add: lit_def)
  ultimately show ?thesis
    using empty by (simp add: render_prompt_def opt_str_or_def)
qed

theorem empty_error_gets_placeholder_witness:
  "render_prompt \<lparr>code = lit ''print(x)'', error = Some []\<rparr> =
     render_prompt \<lparr>code = lit ''print(x)'', error = None\<rparr> \<and>
   render_prompt \<lparr>code = lit ''print(x)'', error = Some []\<rparr> =
     prompt_head @ lit ''print(x)'' @ prompt_mid @ lit ''No error message'' @ prompt_tail \<and>
   sublist (lit ''No error message'') (render_prompt \<lparr>code = lit ''print(x)'', error = Some []\<rparr>)"
proof -
  have empty: "error \<lparr>code = lit ''print(x)'', error = Some []\<rparr> = Some []"
    by simp
  have filled: "str_or (code \<lparr>code = lit ''print(x)'', error = Some []\<rparr>) (lit ''[EMPTY CODE]'') =
      lit ''print(x)''"
    by (simp add: str_or_def lit_def)
  have dropped: "\<lparr>code = lit ''print(x)'', error = Some []\<rparr>\<lparr>error := None\<rparr> =
      \<lparr>code = lit ''print(x)'', error = None\<rparr>"
    by simp
  from empty_error_gets_placeholder [OF empty] show ?thesis
    unfolding filled dropped by blast
qed

section \<open>Unwrapping the reply\<close>

text \<open>
  C2. When the reply's body has the path \<^verbatim>\<open>choices[0].message.content\<close> and a string
  \<^verbatim>\<open>c\<close> stands there, as in \<^verbatim>\<open>{"choices":[{"message":{"content": c}}]}\<close> and in
  any body with further members, \<^verbatim>\<open>analyze\<close> returns \<^verbatim>\<open>{"analysis": c}\<close> with
  \<^verbatim>\<open>c\<close> unchanged, whatever the reply's status.
\<close>

theorem analyze_returns_content:
  "post (outbound_request g req) = PostReturns status (Inr body) \<Longrightarrow>
   content_path body = Some (JStr c) \<Longrightarrow>
   returned (analyze g post req) = Inr (JObj [(lit ''analysis'', JStr c)])"
  by (simp add: analyze_def Let_def extract_content_found)

theorem analyze_returns_content_witness:
  "returned
     (analyze \<lparr>GROQ_API_KEY = lit ''gsk_test''\<rparr>
        (always (PostReturns 200
           (Inr (JObj [(lit ''choices'',
                        JArr [JObj [(lit ''message'',
                                     JObj [(lit ''content'', JStr (lit ''Issue: ...''))])]])]))))
        \<lparr>code = lit ''print(x)'', error = None\<rparr>) =
   Inr (JObj [(lit ''analysis'', JStr (lit ''Issue: ...'') :: unit json)]) \<and>
   returned
     (analyze \<lparr>GROQ_API_KEY = lit ''gsk_test''\<rparr>
        (always (PostReturns 200
           (Inr (JObj [(lit ''id'', JStr (lit ''chatcmpl-1'')),
                       (lit ''choices'',
                        JArr [JObj [(lit ''index'', JInt 0),
                                    (lit ''message'',
                                     JObj [(lit ''role'', JStr (lit ''assistant'')),
                                           (lit ''content'', JStr (lit ''Issue: ...''))]),
                                    (lit ''finish_reason'', JStr (lit ''stop''))]])]))))
        \<lparr>code = lit ''print(x)'', error = None\<rparr>) =
   Inr (JObj [(lit ''analysis'', JStr (lit ''Issue: ...'') :: unit json)])"
proof -
  have bare:
    "content_path
       (JObj [(lit ''choices'',
               JArr [JObj [(lit ''message'',
                            JObj [(lit ''content'', JStr (lit ''Issue: ...''))])]])] :: unit json) =
     Some (JStr (lit ''Issue: ...''))"
    by (simp add: content_path_def lit_def)
  have full:
    "content_path
       (JObj [(lit ''id'', JStr (lit ''chatcmpl-1'')),
              (lit ''choices'',
               JArr [JObj [(lit ''index'', JInt 0),
                           (lit ''message'',
                            JObj [(lit ''role'', JStr (lit ''assistant'')),
                                  (lit ''content'', JStr (lit ''Issue: ...''))]),
                           (lit ''finish_reason'', JStr (lit ''stop''))]])] :: unit json) =
     Some (JStr (lit ''Issue: ...''))"
    by (simp add: content_path_def lit_def)
  let ?g = "\<lparr>GROQ_API_KEY = lit ''gsk_test''\<rparr>"
  let ?req = "\<lparr>code = lit ''print(x)'', error = None\<rparr>"
  let ?bare = "JObj [(lit ''choices'',
               JArr [JObj [(lit ''message'',
                            JObj [(lit ''content'', JStr (lit ''Issue: ...''))])]])] :: unit json"
  let ?full = "JObj [(lit ''id'', JStr (lit ''chatcmpl-1'')),
              (lit ''choices'',
               JArr [JObj [(lit ''index'', JInt 0),
                           (lit ''message'',
                            JObj [(lit ''role'', JStr (lit ''assistant'')),
                                  (lit ''content'', JStr (lit ''Issue: ...''))]),
                           (lit ''finish_reason'', JStr (lit ''stop''))]])] :: unit json"
  have sent_bare: "always (PostReturns 200 (Inr ?bare)) (outbound_request ?g ?req) =
      PostReturns 200 (Inr ?bare)"
    by (simp add: always_def)
  have sent_full: "always (PostReturns 200 (Inr ?full)) (outbound_request ?g ?req) =
      PostReturns 200 (Inr ?full)"
    by (simp add: always_def)
  from analyze_returns_content
         [of "always (PostReturns 200 (Inr ?bare))" ?g ?req 200 ?bare "lit ''Issue: ...''",
          OF sent_bare bare]
       analyze_returns_content
         [of "always (PostReturns 200 (Inr ?full))" ?g ?req 200 ?full "lit ''Issue: ...''",
          OF sent_full full]
  show ?thesis
    by (rule conjI)
qed

text \<open>
  C3. When the reply's JSON body does not contain the path
  \<^verbatim>\<open>choices[0].message.content\<close>, \<^verbatim>\<open>analyze\<close> raises (\<^verbatim>\<open>KeyError\<close>,
  \<^verbatim>\<open>IndexError\<close> or \<^verbatim>\<open>TypeError\<close>): it returns no result, so none with an empty or
  null analysis.
\<close>

theorem analyze_fails_without_content_path:
  "post (outbound_request g req) = PostReturns status (Inr body) \<Longrightarrow>
   content_path body = None \<Longrightarrow>
   returned (analyze g post req) = Inl KeyError \<or>
   returned (analyze g post req) = Inl IndexError \<or>
   returned (analyze g post req) = Inl TypeError"
  using extract_content_shape_error [of body]
  by (auto simp: analyze_def Let_def)

theorem analyze_fails_without_content_path_witness:
  "returned
     (analyze \<lparr>GROQ_API_KEY = lit ''gsk_test''\<rparr>
        (always (PostReturns 200 (Inr (JObj [(lit ''id'', JStr (lit ''1''))]))))
        \<lparr>code = lit ''print(x)'', error = None\<rparr>) = (Inl KeyError :: py_error + unit json) \<and>
   returned
     (analyze \<lparr>GROQ_API_KEY = lit ''gsk_test''\<rparr>
        (always (PostReturns 200 (Inr (JObj [(lit ''choices'', JArr [])]))))
        \<lparr>code = lit ''print(x)'', error = None\<rparr>) = (Inl IndexError :: py_error + unit json)"
  using analyze_fails_without_content_path
    [of "always (PostReturns 200 (Inr (JObj [(lit ''id'', JStr (lit ''1''))])))"
        "\<lparr>GROQ_API_KEY = lit ''gsk_test''\<rparr>" "\<lparr>code = lit ''print(x)'', error = None\<rparr>"
        200 "JObj [(lit ''id'', JStr (lit ''1''))]"]
    analyze_fails_without_content_path
    [of "always (PostReturns 200 (Inr (JObj [(lit ''choices'', JArr [])])))"
        "\<lparr>GROQ_API_KEY = lit ''gsk_test''\<rparr>" "\<lparr>code = lit ''print(x)'', error = None\<rparr>"
        200 "JObj [(lit ''choices'', JArr [])]"]
  by (simp add: always_def content_path_def analyze_def extract_content_def then_getitem_def
        seq_index_def lit_def)

section \<open>Failures of the outbound call\<close>

text \<open>
  C4, as the code has it. When the outbound call suffers a network failure, that is
  when \<^verbatim>\<open>requests.post\<close> raises, \<^verbatim>\<open>analyze\<close> fails with the very error raised: it
  reaches the caller unhandled, after the one call (nothing is retried), and nothing is
  returned. A status outside 2xx is no such failure: the handler never reads the status.
\<close>

theorem analyze_transport_failure:
  "post (outbound_request g req) = PostRaises e \<Longrightarrow>
   returned (analyze g post req) = Inl e \<and>
   (\<nexists>v. returned (analyze g post req) = Inr v) \<and>
   posts (analyze g post req) = [outbound_request g req]"
  by (simp add: analyze_def Let_def)

theorem analyze_transport_failure_witness:
  "returned
     (analyze \<lparr>GROQ_API_KEY = lit ''gsk_test''\<rparr> (always (PostRaises RequestException))
        \<lparr>code = lit ''print(x)'', error = None\<rparr>) = (Inl RequestException :: py_error + unit json) \<and>
   posts
     (analyze \<lparr>GROQ_API_KEY = lit ''gsk_test''\<rparr> (always (PostRaises RequestException))
        \<lparr>code = lit ''print(x)'', error = None\<rparr>) =
     [outbound_request \<lparr>GROQ_API_KEY = lit ''gsk_test''\<rparr>
        \<lparr>code = lit ''print(x)'', error = None\<rparr> :: unit http_request]"
proof -
  let ?g = "\<lparr>GROQ_API_KEY = lit ''gsk_test''\<rparr>"
  let ?req = "\<lparr>code = lit ''print(x)'', error = None\<rparr>"
  have sent: "always (PostRaises RequestException :: unit post_outcome) (outbound_request ?g ?req) =
      PostRaises RequestException"
    by (simp add: always_def)
  from analyze_transport_failure
         [of "always (PostRaises RequestException :: unit post_outcome)" ?g ?req RequestException,
          OF sent]
  show ?thesis
    by blast
qed

text \<open>
  A reply with status 500 whose body has the path is unwrapped like any other, so a
  status outside 2xx does not by itself make \<^verbatim>\<open>analyze\<close> fail.
\<close>

theorem analyze_non_2xx_counterexample:
  "\<not> (200 \<le> (500::nat) \<and> (500::nat) < 300) \<and>
   returned
     (analyze \<lparr>GROQ_API_KEY = lit ''gsk_test''\<rparr>
        (always (PostReturns 500 (Inr (JObj [(lit ''choices'',
                         JArr [JObj [(lit ''message'',
                                      JObj [(lit ''content'', JStr (lit ''hint''))])]])]))))
        \<lparr>code = lit ''print(x)'', error = None\<rparr>) =
   Inr (JObj [(lit ''analysis'', JStr (lit ''hint'') :: unit json)])"
  by (simp add: analyze_def Let_def always_def extract_content_found content_path_def)

section \<open>Start-up\<close>

text \<open>
  C6. When \<^verbatim>\<open>os.getenv\<close> finds no \<^verbatim>\<open>GROQ_API_KEY\<close> in the environment at module
  start, the module body raises \<^verbatim>\<open>RuntimeError\<close>, and the process ends with that
  error whatever requests were waiting: none is served.
\<close>

theorem module_init_requires_credential:
  "getenv (load_dotenv env) (lit ''GROQ_API_KEY'') = None \<Longrightarrow>
   module_init load_dotenv env = Inl (RuntimeError (lit ''GROQ_API_KEY is not set'')) \<and>
   run_process load_dotenv env post reqs = Inl (RuntimeError (lit ''GROQ_API_KEY is not set''))"
  by (simp add: module_init_def run_process_def)

theorem module_init_requires_credential_witness:
  "module_init id (map_of [(lit ''PATH'', lit ''/usr/bin'')]) =
     Inl (RuntimeError (lit ''GROQ_API_KEY is not set'')) \<and>
   run_process id (map_of [(lit ''PATH'', lit ''/usr/bin'')])
     (always (PostReturns 200 (Inr (JNull :: unit json))))
     [\<lparr>code = lit ''print(x)'', error = None\<rparr>] =
     Inl (RuntimeError (lit ''GROQ_API_KEY is not set''))"
  using module_init_requires_credential
    [of id "map_of [(lit ''PATH'', lit ''/usr/bin'')]"
        "always (PostReturns 200 (Inr (JNull :: unit json)))"
        "[\<lparr>code = lit ''print(x)'', error = None\<rparr>]"]
  by (simp add: getenv_def lit_def)

section \<open>The outbound request\<close>

text \<open>
  C7. In every invocation the request posted carries the header
  \<^verbatim>\<open>Authorization: Bearer\<close> followed by the credential read at start-up, and its body
  is exactly the fixed model identifier and a list of one message, of role
  \<^verbatim>\<open>user\<close>, whose content is the rendered prompt.
\<close>

theorem outbound_request_contents:
  "module_init load_dotenv env = Inr g \<Longrightarrow>
   \<exists>k r. getenv (load_dotenv env) (lit ''GROQ_API_KEY'') = Some k \<and>
     posts (analyze g post req) = [r] \<and>
     url r = lit ''https://api.groq.com/openai/v1/chat/completions'' \<and>
     map_of (headers r) (lit ''Authorization'') = Some (lit ''Bearer '' @ k) \<and>
     json_payload r =
       JObj [(lit ''model'', JStr (lit ''llama-3.1-8b-instant'')),
             (lit ''messages'',
              JArr [JObj [(lit ''role'', JStr (lit ''user'')),
                          (lit ''content'', JStr (render_prompt req))]])]"
proof -
  assume init: "module_init load_dotenv env = Inr g"
  then obtain k where k: "getenv (load_dotenv env) (lit ''GROQ_API_KEY'') = Some k"
    and g: "g = \<lparr>GROQ_API_KEY = k\<rparr>"
    by (auto simp: module_init_def split: option.splits)
  have "posts (analyze g post req) = [outbound_request g req]"
    by (rule analyze_posts)
  moreover have "url (outbound_request g req :: 'a http_request) =
      lit ''https://api.groq.com/openai/v1/chat/completions''"
    by (simp add: outbound_request_def)
  moreover have "map_of (headers (outbound_request g req :: 'a http_request)) (lit ''Authorization'') =
      Some (lit ''Bearer '' @ k)"
    by (simp add: outbound_request_def g)
  moreover have "json_payload (outbound_request g req :: 'a http_request) =
       JObj [(lit ''model'', JStr (lit ''llama-3.1-8b-instant'')),
             (lit ''messages'',
              JArr [JObj [(lit ''role'', JStr (lit ''user'')),
                          (lit ''content'', JStr (render_prompt req))]])]"
    by (simp add: outbound_request_def)
  ultimately show ?thesis using k by blast
qed

theorem outbound_request_contents_witness:
  "\<exists>k r. getenv (id (map_of [(lit ''GROQ_API_KEY'', lit ''gsk_test'')])) (lit ''GROQ_API_KEY'') = Some k \<and>
     posts (analyze \<lparr>GROQ_API_KEY = lit ''gsk_test''\<rparr> (always (PostRaises RequestException :: unit post_outcome))
        \<lparr>code = lit ''print(x)'', error = None\<rparr>) = [r] \<and>
     url r = lit ''https://api.groq.com/openai/v1/chat/completions'' \<and>
     map_of (headers r) (lit ''Authorization'') = Some (lit ''Bearer '' @ k) \<and>
     json_payload r =
       JObj [(lit ''model'', JStr (lit ''llama-3.1-8b-instant'')),
             (lit ''messages'',
              JArr [JObj [(lit ''role'', JStr (lit ''user'')),
                          (lit ''content'',
                           JStr (render_prompt \<lparr>code = lit ''print(x)'', error = None\<rparr>))]])]"
proof -
  have "module_init id (map_of [(lit ''GROQ_API_KEY'', lit ''gsk_test'')]) =
      Inr \<lparr>GROQ_API_KEY = lit ''gsk_test''\<rparr>"
    by (simp add: module_init_def getenv_def)
  then show ?thesis
    by (rule outbound_request_contents)
qed

text \<open>
  C8. Every invocation makes exactly one outbound call and leaves the module state,
  the credential with it, as it found it; so does every invocation of a run of
  requests.
\<close>

theorem analyze_one_call_no_mutation:
  "length (posts (analyze g post req)) = 1 \<and>
   globals_after (analyze g post req) = g \<and>
   map (\<lambda>i. length (posts i)) (serve g post reqs) = replicate (length reqs) 1 \<and>
   map globals_after (serve g post reqs) = replicate (length reqs) g"
  by (simp add: analyze_posts analyze_globals serve_globals serve_post_counts)

theorem analyze_one_call_no_mutation_witness:
  "length (posts
     (analyze \<lparr>GROQ_API_KEY = lit ''gsk_test''\<rparr>
        (always (PostReturns 200 (Inr (JNull :: unit json))))
        \<lparr>code = lit ''print(x)'', error = None\<rparr>)) = 1 \<and>
   map globals_after
     (serve \<lparr>GROQ_API_KEY = lit ''gsk_test''\<rparr>
        (always (PostReturns 200 (Inr (JNull :: unit json))))
        [\<lparr>code = lit ''print(x)'', error = None\<rparr>, \<lparr>code = [], error = Some (lit ''E'')\<rparr>]) =
     [\<lparr>GROQ_API_KEY = lit ''gsk_test''\<rparr>, \<lparr>GROQ_API_KEY = lit ''gsk_test''\<rparr>] \<and>
   map (\<lambda>i. length (posts i))
     (serve \<lparr>GROQ_API_KEY = lit ''gsk_test''\<rparr>
        (always (PostReturns 200 (Inr (JNull :: unit json))))
        [\<lparr>code = lit ''print(x)'', error = None\<rparr>, \<lparr>code = [], error = Some (lit ''E'')\<rparr>]) =
     [1, 1]"
proof -
  have two: "replicate (length [a, b]) v = [v, v]" for a b :: AnalyzeRequest and v :: 'v
    by simp
  from analyze_one_call_no_mutation
    [of "\<lparr>GROQ_API_KEY = lit ''gsk_test''\<rparr>"
        "always (PostReturns 200 (Inr (JNull :: unit json)))"
        "\<lparr>code = lit ''print(x)'', error = None\<rparr>"
        "[\<lparr>code = lit ''print(x)'', error = None\<rparr>, \<lparr>code = [], error = Some (lit ''E'')\<rparr>]"]
  show ?thesis
    unfolding two by blast
qed

end
